theory Spec2Isabelle
  imports Main
begin

section \<open>The child server process (xwayland_server.h / xwayland_server.cpp)\<close>

subsection \<open>Data\<close>

text \<open>
  A \<open>mir::Fd\<close> converts to the \<open>int\<close> it wraps; a \<open>wl_client*\<close> is an address, with
  \<open>0\<close> for \<open>nullptr\<close>.
\<close>

type_synonym fd = int
type_synonym wl_client_ptr = nat

text \<open>The two exception types the sources throw; the third stands for whatever an
  external constructor lets escape.\<close>

datatype exn =
    System_error int string
  | Runtime_error string
  | Foreign_exception string

record XWaylandSpawner =
  x11_display :: string
  socket_fds :: "fd list"

record XWaylandProcess =
  pid :: int
  wayland_server_fd :: fd
  x11_wm_client_fd :: fd

record XWaylandServer =
  xwayland_process :: XWaylandProcess
  wayland_client :: wl_client_ptr
  running :: bool
  exit_code :: "int option"

text \<open>\<open>struct SocketPair { Fd client; Fd server; }\<close>; the fields carry a prefix because
  \<open>server\<close> is also a member of the connector.\<close>

record SocketPair =
  pair_client :: fd
  pair_server :: fd

subsection \<open>\<open>std::to_string(int)\<close>\<close>

definition digit_char :: "nat \<Rightarrow> char" where
  "digit_char d = ''0123456789'' ! d"

function to_string_nat :: "nat \<Rightarrow> string" where
  "to_string_nat n =
     (if n < 10 then [digit_char n]
      else to_string_nat (n div 10) @ [digit_char (n mod 10)])"
  by pat_completeness auto
termination
  by (relation "measure (\<lambda>n. n)") auto

declare to_string_nat.simps [simp del]

definition to_string :: "int \<Rightarrow> string" where
  "to_string i =
     (if i < 0 then CHR ''-'' # to_string_nat (nat (- i)) else to_string_nat (nat i))"

subsection \<open>\<open>make_socket_pair\<close>\<close>

text \<open>What \<open>socketpair(2)\<close> answers: a negative return with \<open>errno\<close>, or the two
  descriptors written to \<open>pipe[0]\<close> and \<open>pipe[1]\<close>.\<close>

datatype socketpair_result = Socketpair_failed int | Socketpair_ok fd fd

definition make_socket_pair :: "socketpair_result \<Rightarrow> exn + SocketPair" where
  "make_socket_pair r =
     (case r of
        Socketpair_failed errno \<Rightarrow> Inl (System_error errno ''Creating socket pair failed'')
      | Socketpair_ok p0 p1 \<Rightarrow> Inr \<lparr>pair_client = p0, pair_server = p1\<rparr>)"

subsection \<open>\<open>exec_xwayland\<close>: what the forked child does\<close>

datatype sig_handler = SIG_DFL | SIG_IGN | Set_xserver_ready | Other_handler nat

datatype child_action =
    Set_cloexec fd bool
  | Setenv string string
  | Sigaction_SIGUSR1 sig_handler
  | Execvp string "string list"
  | Perror string
  | Abort

text \<open>The argument vector, in the order the source pushes it (the closing \<open>nullptr\<close> is
  the end of the list). \<open>xwayland_option\<close> is \<open>getenv("MIR_XWAYLAND_OPTION")\<close>.\<close>

definition xwayland_args ::
  "XWaylandSpawner \<Rightarrow> string \<Rightarrow> fd \<Rightarrow> string option \<Rightarrow> string list" where
  "xwayland_args spawner xwayland_path x11_wm_server_fd xwayland_option =
     [xwayland_path, x11_display spawner, ''-rootless'',
      ''-wm'', to_string x11_wm_server_fd, ''-terminate'']
     @ concat (map (\<lambda>fd. [''-listen'', to_string fd]) (socket_fds spawner))
     @ (case xwayland_option of Some opt \<Rightarrow> [opt] | None \<Rightarrow> [])"

text \<open>The calls of \<open>exec_xwayland\<close> in program order. \<open>execvp\<close> returns only when it has
  failed; then \<open>perror\<close> runs and the function returns to \<open>fork_xwayland_process\<close>.\<close>

definition exec_xwayland ::
  "bool \<Rightarrow> string option \<Rightarrow> XWaylandSpawner \<Rightarrow> string \<Rightarrow> fd \<Rightarrow> fd \<Rightarrow> child_action list" where
  "exec_xwayland execvp_ok xwayland_option spawner xwayland_path wayland_client_fd x11_wm_server_fd =
     [Set_cloexec wayland_client_fd False,
      Set_cloexec x11_wm_server_fd False,
      Setenv ''WAYLAND_SOCKET'' (to_string wayland_client_fd),
      Sigaction_SIGUSR1 SIG_IGN]
     @ map (\<lambda>fd. Set_cloexec fd False) (socket_fds spawner)
     @ [Execvp xwayland_path (xwayland_args spawner xwayland_path x11_wm_server_fd xwayland_option)]
     @ (if execvp_ok then []
        else [Perror (''Failed to execute Xwayland binary: xwayland_path='' @ [CHR 0x27]
                      @ xwayland_path @ [CHR 0x27])])"

subsection \<open>\<open>fork_xwayland_process\<close>\<close>

datatype fork_result = Fork_failed int | Fork_parent int

text \<open>
  \<open>fork\<close> returns twice. The model gives both sides: first what the parent gets (the
  exception or the process record), second what the child does when there is one
  (\<open>case 0\<close>: \<open>exec_xwayland\<close>, then \<open>abort()\<close> if that returned).
\<close>

definition fork_xwayland_process ::
  "socketpair_result \<Rightarrow> socketpair_result \<Rightarrow> fork_result \<Rightarrow> bool \<Rightarrow> string option \<Rightarrow>
   XWaylandSpawner \<Rightarrow> string \<Rightarrow> (exn + XWaylandProcess) \<times> child_action list option" where
  "fork_xwayland_process sp1 sp2 fk execvp_ok xwayland_option spawner xwayland_path =
     (case make_socket_pair sp1 of
        Inl e \<Rightarrow> (Inl e, None)
      | Inr wayland_pipe \<Rightarrow>
     (case make_socket_pair sp2 of
        Inl e \<Rightarrow> (Inl e, None)
      | Inr x11_wm_pipe \<Rightarrow>
     (case fk of
        Fork_failed errno \<Rightarrow>
          (Inl (System_error errno ''Failed to fork XWayland process''), None)
      | Fork_parent xwayland_pid \<Rightarrow>
          (Inr \<lparr>pid = xwayland_pid,
                wayland_server_fd = pair_server wayland_pipe,
                x11_wm_client_fd = pair_client x11_wm_pipe\<rparr>,
           Some (exec_xwayland execvp_ok xwayland_option spawner xwayland_path
                   (pair_client wayland_pipe) (pair_server x11_wm_pipe)
                 @ (if execvp_ok then [] else [Abort]))))))"

subsection \<open>\<open>XWaylandServer::is_running\<close>\<close>

text \<open>What \<open>waitpid(pid, &status, WNOHANG)\<close> answers: its return value and how the
  status word reads (after a return of \<open>-1\<close> the word is whatever the uninitialised
  variable held).\<close>

datatype wait_status = Exited int | Signaled int | Stopped_or_other

record waitpid_result =
  wait_ret :: int
  wait_status :: wait_status

datatype server_effect = Server_lock | Server_unlock | Waitpid_WNOHANG int

definition is_running ::
  "waitpid_result \<Rightarrow> XWaylandServer \<Rightarrow> bool \<times> XWaylandServer \<times> server_effect list" where
  "is_running r s =
     (if running s then
        (if wait_ret r \<noteq> 0 then
           (let s1 = s\<lparr>running := False\<rparr>;
                s2 = (case wait_status r of
                        Exited code \<Rightarrow> s1\<lparr>exit_code := Some code\<rparr>
                      | _ \<Rightarrow> s1)
            in (running s2, s2,
                [Server_lock, Waitpid_WNOHANG (pid (xwayland_process s)), Server_unlock]))
         else (running s, s,
               [Server_lock, Waitpid_WNOHANG (pid (xwayland_process s)), Server_unlock]))
      else (running s, s, [Server_lock, Server_unlock]))"

text \<open>A sequence of calls, each with the answer \<open>waitpid\<close> would give at that moment:
  the results, the final record and everything the calls did.\<close>

fun is_running_calls ::
  "waitpid_result list \<Rightarrow> XWaylandServer \<Rightarrow> bool list \<times> XWaylandServer \<times> server_effect list" where
  "is_running_calls [] s = ([], s, [])"
| "is_running_calls (r # rs) s =
     (case is_running r s of
        (b, s1, es) \<Rightarrow>
          (case is_running_calls rs s1 of
             (bs, s2, es') \<Rightarrow> (b # bs, s2, es @ es')))"

subsection \<open>The startup handshake: \<open>spin_wait_for\<close> and \<open>connect_xwayland_wl_client\<close>\<close>

text \<open>
  Time is counted in milliseconds from the moment the temporary handler is installed.
  \<open>sigusr1_at\<close> is the moment the child raises SIGUSR1 (\<open>None\<close>: never); the handler
  sets \<open>xserver_ready\<close>, so the flag reads true from then on.
\<close>

definition xserver_ready :: "nat option \<Rightarrow> nat \<Rightarrow> bool" where
  "xserver_ready sigusr1_at now = (case sigusr1_at of None \<Rightarrow> False | Some t \<Rightarrow> t \<le> now)"

text \<open>The loop of \<open>spin_wait_for\<close>: \<open>while (now() < end && !xserver_ready) sleep_for(100ms)\<close>,
  then \<open>return xserver_ready\<close>. A sleep is taken to last 100 ms and nothing else to
  take time, so the flag is last read at the deadline; the program's sleeps may last
  longer and its last read may come later.\<close>

function spin_wait_loop :: "nat option \<Rightarrow> nat \<Rightarrow> nat \<Rightarrow> bool" where
  "spin_wait_loop sigusr1_at end_time now =
     (if now < end_time \<and> \<not> xserver_ready sigusr1_at now
      then spin_wait_loop sigusr1_at end_time (now + 100)
      else xserver_ready sigusr1_at now)"
  by pat_completeness auto
termination
  by (relation "measure (\<lambda>(s, e, n). e - n)") auto

declare spin_wait_loop.simps [simp del]

definition spin_wait_for :: "nat option \<Rightarrow> nat \<Rightarrow> bool" where
  "spin_wait_for sigusr1_at now = spin_wait_loop sigusr1_at (now + 5000) now"

text \<open>
  \<open>connect_xwayland_wl_client\<close>. \<open>prior\<close> is the disposition of SIGUSR1 on entry,
  \<open>client_created_at\<close> the moment the callback posted to the Wayland display has run
  (\<open>None\<close>: it never runs), \<open>client\<close> what \<open>wl_client_create\<close> returned there. The result
  is the exception or the client, together with the disposition of SIGUSR1 on exit.
\<close>

definition connect_xwayland_wl_client ::
  "sig_handler \<Rightarrow> nat option \<Rightarrow> wl_client_ptr \<Rightarrow> nat option \<Rightarrow>
   (exn + wl_client_ptr) \<times> sig_handler" where
  "connect_xwayland_wl_client prior client_created_at client sigusr1_at =
     (let old_action = prior;
          installed = Set_xserver_ready
      in case (case client_created_at of
                 None \<Rightarrow> None
               | Some t \<Rightarrow> if t \<le> 10000 then Some t else None) of
           None \<Rightarrow> (Inl (Runtime_error ''Creating XWayland wl_client timed out''), installed)
         | Some now \<Rightarrow>
             if client = 0
             then (Inl (Runtime_error ''Failed to create XWayland wl_client''), installed)
             else
               (let xwayland_startup_timed_out = \<not> spin_wait_for sigusr1_at now;
                    restored = old_action
                in if xwayland_startup_timed_out
                   then (Inl (Runtime_error ''XWayland server failed to start''), restored)
                   else (Inr client, restored)))"

subsection \<open>The constructor of \<open>XWaylandServer\<close>\<close>

text \<open>Everything outside the program that one spawn attempt meets.\<close>

record world =
  socketpair_1 :: socketpair_result
  socketpair_2 :: socketpair_result
  fork_ret :: fork_result
  execvp_ok :: bool
  mir_xwayland_option :: "string option"
  prior_sigusr1 :: sig_handler
  client_created_at :: "nat option"
  created_client :: wl_client_ptr
  child_ready_at :: "nat option"
  wm_ctor :: "exn option"
  wm_dispatcher_ctor :: "exn option"
  wm_event_thread_ctor :: "exn option"

text \<open>A child whose \<open>execvp\<close> failed has aborted: it never raises the readiness signal.\<close>

definition child_sigusr1 :: "world \<Rightarrow> nat option" where
  "child_sigusr1 w = (if execvp_ok w then child_ready_at w else None)"

text \<open>The member initialisers in order: \<open>xwayland_process\<close>, \<open>wayland_client\<close>,
  \<open>running{true}\<close>. The result also carries the child's actions and the disposition
  of SIGUSR1 in the parent afterwards.\<close>

definition XWaylandServer_ctor ::
  "world \<Rightarrow> XWaylandSpawner \<Rightarrow> string \<Rightarrow>
   (exn + XWaylandServer) \<times> child_action list option \<times> sig_handler" where
  "XWaylandServer_ctor w spawner xwayland_path =
     (case fork_xwayland_process (socketpair_1 w) (socketpair_2 w) (fork_ret w) (execvp_ok w)
             (mir_xwayland_option w) spawner xwayland_path of
        (Inl e, child) \<Rightarrow> (Inl e, child, prior_sigusr1 w)
      | (Inr process, child) \<Rightarrow>
          (case connect_xwayland_wl_client (prior_sigusr1 w) (client_created_at w)
                  (created_client w) (child_sigusr1 w) of
             (Inl e, h) \<Rightarrow> (Inl e, child, h)
           | (Inr c, h) \<Rightarrow>
               (Inr \<lparr>xwayland_process = process, wayland_client = c,
                     running = True, exit_code = None\<rparr>, child, h)))"

definition client :: "XWaylandServer \<Rightarrow> wl_client_ptr" where
  "client s = wayland_client s"

definition wm_fd :: "XWaylandServer \<Rightarrow> fd" where
  "wm_fd s = x11_wm_client_fd (xwayland_process s)"

text \<open>
  Modelled from the spec: the error kinds of section 7. \<open>ResourceCreationFailure\<close> is
  the failure of socket-pair creation or of \<open>fork\<close> (in the source: the two
  \<open>std::system_error\<close>s); \<open>HandshakeTimeout\<close> is the client handle or the readiness signal
  not arriving in time.
\<close>

definition is_ResourceCreationFailure :: "exn \<Rightarrow> bool" where
  "is_ResourceCreationFailure e =
     (case e of
        System_error errno msg \<Rightarrow>
          msg = ''Creating socket pair failed'' \<or> msg = ''Failed to fork XWayland process''
      | _ \<Rightarrow> False)"

definition is_HandshakeTimeout :: "exn \<Rightarrow> bool" where
  "is_HandshakeTimeout e =
     (e = Runtime_error ''Creating XWayland wl_client timed out''
      \<or> e = Runtime_error ''XWayland server failed to start'')"

section \<open>The connector (xwayland_connector.cpp)\<close>

subsection \<open>State\<close>

record XWaylandWM =
  wm_client :: wl_client_ptr
  wm_control_fd :: fd

record ThreadedDispatcher =
  thread_name :: string
  watched_fd :: fd

datatype component = Spawner | Server | Wm | Wm_event_thread

text \<open>What an operation does besides changing the members, in program order. The log
  entries are those the connector writes itself; what the constructor and the
  destructor of the server log is not recorded.\<close>

datatype effect =
    Lock
  | Unlock
  | Move_out component
  | Destroy component
  | Create component
  | Fork_child "child_action list"
  | Handle_events
  | Main_loop_spawn
  | Log_info string
  | Log_error exn string

text \<open>The closure \<open>restart\<close> posts to the main loop, and the same closure once its call
  of \<open>tear_down\<close> has released the lock and it waits to take the lock again.\<close>

datatype task = Restart_task | Restart_task_after_tear_down

text \<open>
  The members of \<open>XWaylandConnector\<close>. \<open>main_loop\<close> is the executor, seen as the queue
  of closures posted to it and not yet finished; \<open>trace\<close> collects the effects.
\<close>

record connector =
  xwayland_path :: string
  spawner :: "XWaylandSpawner option"
  server :: "XWaylandServer option"
  wm :: "XWaylandWM option"
  wm_event_thread :: "ThreadedDispatcher option"
  restart_in_progress :: bool
  main_loop :: "task list"
  trace :: "effect list"

definition emit :: "effect list \<Rightarrow> connector \<Rightarrow> connector" where
  "emit es s = s\<lparr>trace := trace s @ es\<rparr>"

text \<open>The constructor: \<open>access(path, F_OK | X_OK) != 0\<close> is a \<open>fatal_error\<close>. What
  \<open>mir::fatal_error\<close> then does is not in the sources; the model records that it was
  called and with which message. \<open>restart_in_progress\<close> starts false.\<close>

datatype fatal = Fatal_error string

definition XWaylandConnector_ctor :: "bool \<Rightarrow> string \<Rightarrow> fatal + connector" where
  "XWaylandConnector_ctor access_ok path =
     (if \<not> access_ok then Inl (Fatal_error (''Cannot execute Xwayland: --xwayland-path '' @ path))
      else Inr \<lparr>xwayland_path = path, spawner = None, server = None, wm = None,
                wm_event_thread = None, restart_in_progress = False,
                main_loop = [], trace = []\<rparr>)"

subsection \<open>\<open>create_spawner\<close> and \<open>tear_down\<close>\<close>

text \<open>Both take the caller's \<open>unique_lock\<close>; \<open>lock\<close> says whether it owns the mutex on
  entry. After \<open>create_spawner\<close> it does, after \<open>tear_down\<close> it does not.
  \<open>new_spawner\<close> is what \<open>std::make_unique<XWaylandSpawner>\<close> builds.\<close>

definition create_spawner :: "bool \<Rightarrow> XWaylandSpawner \<Rightarrow> connector \<Rightarrow> connector" where
  "create_spawner lock new_spawner s =
     (let s1 = (if \<not> lock then emit [Lock] s else s)
      in if spawner s1 \<noteq> None then s1
         else emit [Create Spawner] (s1\<lparr>spawner := Some new_spawner\<rparr>))"

text \<open>\<open>reset()\<close> of a local \<open>unique_ptr\<close> destroys the object when there is one.\<close>

definition reset :: "component \<Rightarrow> 'a option \<Rightarrow> effect list" where
  "reset c p = (case p of None \<Rightarrow> [] | Some x \<Rightarrow> [Destroy c])"

definition tear_down :: "bool \<Rightarrow> connector \<Rightarrow> connector" where
  "tear_down lock s =
     (let s1 = (if \<not> lock then emit [Lock] s else s);
          was_running = (server s1 \<noteq> None);
          local_spawner = spawner s1;
          local_wm_event_thread = wm_event_thread s1;
          local_wm = wm s1;
          local_server = server s1;
          s2 = emit [Move_out Spawner, Move_out Wm_event_thread, Move_out Wm, Move_out Server]
                 (s1\<lparr>spawner := None, wm_event_thread := None, wm := None, server := None\<rparr>);
          s3 = emit [Unlock] s2;
          s4 = emit (reset Spawner local_spawner @ reset Wm_event_thread local_wm_event_thread
                     @ reset Wm local_wm @ reset Server local_server) s3
      in if was_running then emit [Log_info ''XWayland stopped''] s4 else s4)"

subsection \<open>\<open>start\<close>, \<open>stop\<close>, \<open>socket_name\<close>\<close>

text \<open>\<open>x11_support\<close> is whether \<open>get_extension("x11-support")\<close> is non-null.\<close>

definition start :: "bool \<Rightarrow> XWaylandSpawner \<Rightarrow> connector \<Rightarrow> connector" where
  "start x11_support new_spawner s =
     (if x11_support then
        (let s1 = create_spawner True new_spawner (emit [Lock] s);
             s2 = (case spawner s1 of
                     Some sp \<Rightarrow>
                       emit [Log_info (''Listening for X11 connections on DISPLAY '' @ x11_display sp)] s1
                   | None \<Rightarrow> s1)
         in emit [Unlock] s2)
      else s)"

text \<open>The \<open>unique_lock\<close> of \<open>stop\<close> no longer owns the mutex when it goes out of scope.\<close>

definition stop :: "connector \<Rightarrow> connector" where
  "stop s = tear_down True ((emit [Lock] s)\<lparr>restart_in_progress := False\<rparr>)"

definition socket_name :: "connector \<Rightarrow> string option \<times> connector" where
  "socket_name s =
     (let s1 = emit [Lock] s
      in (case spawner s1 of Some sp \<Rightarrow> Some (x11_display sp) | None \<Rightarrow> None,
          emit [Unlock] s1))"

subsection \<open>\<open>restart\<close> and the closure it posts\<close>

text \<open>\<open>restart\<close> runs with the caller's lock held. \<open>shared_from_this\<close> and the
  executor's \<open>spawn\<close> are taken to return normally.\<close>

definition restart :: "connector \<Rightarrow> connector" where
  "restart s =
     emit [Main_loop_spawn]
       (s\<lparr>restart_in_progress := True, main_loop := main_loop s @ [Restart_task]\<rparr>)"

text \<open>
  The closure, in the two pieces between which its lock is free. The first piece runs
  to the end of \<open>tear_down\<close> and says whether the closure goes on (\<open>self_alive\<close>: whether
  \<open>weak.lock()\<close> is non-null). The second piece starts at \<open>if (!lock) lock.lock()\<close>.
\<close>

definition restart_task_1 :: "bool \<Rightarrow> connector \<Rightarrow> bool \<times> connector" where
  "restart_task_1 self_alive s =
     (if \<not> self_alive then (False, s)
      else
        (let s1 = emit [Lock] s
         in if \<not> restart_in_progress s1 then (False, emit [Unlock] s1)
            else (True, tear_down True s1)))"

definition restart_task_2 :: "XWaylandSpawner \<Rightarrow> connector \<Rightarrow> connector" where
  "restart_task_2 new_spawner s =
     (let s1 = emit [Lock] s
      in if \<not> restart_in_progress s1 then emit [Unlock] s1
         else emit [Unlock] (create_spawner True new_spawner (s1\<lparr>restart_in_progress := False\<rparr>)))"

text \<open>The whole closure when nothing else runs in between.\<close>

definition restart_task :: "bool \<Rightarrow> XWaylandSpawner \<Rightarrow> connector \<Rightarrow> connector" where
  "restart_task self_alive new_spawner s =
     (case restart_task_1 self_alive s of
        (False, s1) \<Rightarrow> s1
      | (True, s1) \<Rightarrow> restart_task_2 new_spawner s1)"

subsection \<open>\<open>spawn\<close>\<close>

text \<open>
  The body of the \<open>try\<close> block: the exception that leaves it, if any, and the members as
  they are at that point. An assignment \<open>server = make_unique...\<close> takes place only when
  the constructor has returned. (The guard of \<open>spawn\<close> has made sure of a spawner, so the
  first branch is never taken.)
\<close>

definition spawn_try :: "world \<Rightarrow> connector \<Rightarrow> exn option \<times> connector" where
  "spawn_try w s =
     (case spawner s of
        None \<Rightarrow> (None, s)
      | Some sp \<Rightarrow>
     (case XWaylandServer_ctor w sp (xwayland_path s) of
        (r, child, h) \<Rightarrow>
     (let s0 = emit (case child of None \<Rightarrow> [] | Some acts \<Rightarrow> [Fork_child acts]) s
      in case r of
        Inl e \<Rightarrow> (Some e, s0)
      | Inr srv \<Rightarrow>
     (let s1 = emit [Create Server] (s0\<lparr>server := Some srv\<rparr>)
      in case wm_ctor w of
        Some e \<Rightarrow> (Some e, s1)
      | None \<Rightarrow>
     (let s2 = emit [Create Wm]
                 (s1\<lparr>wm := Some \<lparr>wm_client = client srv, wm_control_fd = wm_fd srv\<rparr>\<rparr>)
      in case wm_dispatcher_ctor w of
        Some e \<Rightarrow> (Some e, s2)
      | None \<Rightarrow>
     (case wm_event_thread_ctor w of
        Some e \<Rightarrow> (Some e, s2)
      | None \<Rightarrow>
          (None,
           emit [Create Wm_event_thread, Log_info ''XWayland is running'']
             (s2\<lparr>wm_event_thread :=
                   Some \<lparr>thread_name = ''Mir/X11 WM Reader'', watched_fd = wm_fd srv\<rparr>\<rparr>))))))))"

text \<open>\<open>spawn\<close> itself. The first component is the exception that reaches the caller.\<close>

definition spawn :: "world \<Rightarrow> connector \<Rightarrow> exn option \<times> connector" where
  "spawn w s =
     (let s1 = emit [Lock] s
      in if server s1 \<noteq> None \<or> spawner s1 = None \<or> restart_in_progress s1
         then (None, emit [Unlock] s1)
         else
           (case spawn_try w s1 of
              (None, s2) \<Rightarrow> (None, emit [Unlock] s2)
            | (Some e, s2) \<Rightarrow>
                (None, emit [Unlock] (restart (emit [Log_error e ''Spawning XWayland failed''] s2)))))"

subsection \<open>The two closures given to the event thread\<close>

text \<open>The callback of \<open>wm_dispatcher\<close>; \<open>thrown\<close> is what \<open>handle_events\<close> throws when it
  is called. The \<open>lock_guard\<close> releases the mutex on either way out.\<close>

definition wm_dispatcher_callback :: "exn option \<Rightarrow> connector \<Rightarrow> exn option \<times> connector" where
  "wm_dispatcher_callback thrown s =
     (let s1 = emit [Lock] s
      in case wm s1 of
           None \<Rightarrow> (None, emit [Unlock] s1)
         | Some w \<Rightarrow> (thrown, emit [Unlock] (emit [Handle_events] s1)))"

text \<open>The exception handler given to \<open>ThreadedDispatcher\<close>.\<close>

definition wm_exception_handler :: "exn \<Rightarrow> connector \<Rightarrow> connector" where
  "wm_exception_handler e s =
     emit [Unlock]
       (restart (emit [Lock] (emit [Log_error e ''X11 window manager error, killing XWayland''] s)))"

datatype thread_status = Thread_running | Thread_terminated exn

text \<open>
  Modelled from the spec: the thread loop of \<open>mir::dispatch::ThreadedDispatcher\<close> is not
  among the sources. Section 5: the dispatcher invoking the ProtocolBridge is wrapped so
  that any escaping error is caught and converted into a \<open>restart()\<close> call rather than
  terminating the thread.
\<close>

definition threaded_dispatch :: "exn option \<Rightarrow> connector \<Rightarrow> thread_status \<times> connector" where
  "threaded_dispatch thrown s =
     (case wm_dispatcher_callback thrown s of
        (None, s1) \<Rightarrow> (Thread_running, s1)
      | (Some e, s1) \<Rightarrow> (Thread_running, wm_exception_handler e s1))"

subsection \<open>Runs of the connector\<close>

text \<open>
  Each event is one stretch of code during which the mutex is held, with what follows it
  up to the next wait for the mutex; a run is any order of them. The handler of the
  event thread may come at any moment, so every real order is among the runs.
\<close>

datatype event =
    Start bool XWaylandSpawner
  | Stop
  | Socket_name
  | Spawn world
  | Wm_readable "exn option"
  | Wm_error exn
  | Main_loop_step bool XWaylandSpawner

definition main_loop_step :: "bool \<Rightarrow> XWaylandSpawner \<Rightarrow> connector \<Rightarrow> connector" where
  "main_loop_step self_alive new_spawner s =
     (case main_loop s of
        [] \<Rightarrow> s
      | Restart_task # q \<Rightarrow>
          (case restart_task_1 self_alive (s\<lparr>main_loop := q\<rparr>) of
             (True, s1) \<Rightarrow> s1\<lparr>main_loop := Restart_task_after_tear_down # main_loop s1\<rparr>
           | (False, s1) \<Rightarrow> s1)
      | Restart_task_after_tear_down # q \<Rightarrow> restart_task_2 new_spawner (s\<lparr>main_loop := q\<rparr>))"

fun step :: "event \<Rightarrow> connector \<Rightarrow> connector" where
  "step (Start x11_support new_spawner) s = start x11_support new_spawner s"
| "step Stop s = stop s"
| "step Socket_name s = snd (socket_name s)"
| "step (Spawn w) s = snd (spawn w s)"
| "step (Wm_readable thrown) s = snd (wm_dispatcher_callback thrown s)"
| "step (Wm_error e) s = wm_exception_handler e s"
| "step (Main_loop_step self_alive new_spawner) s = main_loop_step self_alive new_spawner s"

fun run :: "event list \<Rightarrow> connector \<Rightarrow> connector" where
  "run [] s = s"
| "run (ev # evs) s = run evs (step ev s)"

subsection \<open>Predicates on states and traces\<close>

definition components_absent :: "connector \<Rightarrow> bool" where
  "components_absent s =
     (spawner s = None \<and> server s = None \<and> wm s = None \<and> wm_event_thread s = None)"

definition triad_all_or_none :: "connector \<Rightarrow> bool" where
  "triad_all_or_none s =
     ((server s \<noteq> None \<and> wm s \<noteq> None \<and> wm_event_thread s \<noteq> None)
      \<or> (server s = None \<and> wm s = None \<and> wm_event_thread s = None))"

text \<open>The components present are the first ones of the order of construction.\<close>

definition triad_prefix :: "connector \<Rightarrow> bool" where
  "triad_prefix s =
     ((wm_event_thread s = None \<or> wm s \<noteq> None) \<and> (wm s = None \<or> server s \<noteq> None))"

text \<open>Reading a trace with the mutex \<open>held\<close> or not at its start: no destructor runs
  while it is held; every move out of a member happens while it is held; and whether it
  is held at the end.\<close>

fun destroys_unlocked :: "bool \<Rightarrow> effect list \<Rightarrow> bool" where
  "destroys_unlocked held [] = True"
| "destroys_unlocked held (Lock # es) = destroys_unlocked True es"
| "destroys_unlocked held (Unlock # es) = destroys_unlocked False es"
| "destroys_unlocked held (Destroy c # es) = (\<not> held \<and> destroys_unlocked held es)"
| "destroys_unlocked held (e # es) = destroys_unlocked held es"

fun moves_locked :: "bool \<Rightarrow> effect list \<Rightarrow> bool" where
  "moves_locked held [] = True"
| "moves_locked held (Lock # es) = moves_locked True es"
| "moves_locked held (Unlock # es) = moves_locked False es"
| "moves_locked held (Move_out c # es) = (held \<and> moves_locked held es)"
| "moves_locked held (e # es) = moves_locked held es"

fun held_after :: "bool \<Rightarrow> effect list \<Rightarrow> bool" where
  "held_after held [] = held"
| "held_after held (Lock # es) = held_after True es"
| "held_after held (Unlock # es) = held_after False es"
| "held_after held (e # es) = held_after held es"

text \<open>Every move out of a member comes before every destructor.\<close>

fun is_move_out :: "effect \<Rightarrow> bool" where
  "is_move_out (Move_out c) = True"
| "is_move_out e = False"

fun moves_before_destroys :: "effect list \<Rightarrow> bool" where
  "moves_before_destroys [] = True"
| "moves_before_destroys (Destroy c # es) =
     (\<not> list_ex is_move_out es \<and> moves_before_destroys es)"
| "moves_before_destroys (e # es) = moves_before_destroys es"

text \<open>The effects an operation adds to the trace.\<close>

definition new_effects :: "connector \<Rightarrow> connector \<Rightarrow> effect list" where
  "new_effects s s' = drop (length (trace s)) (trace s')"

subsection \<open>Concrete inputs\<close>

definition spawner_0 :: XWaylandSpawner where
  "spawner_0 = \<lparr>x11_display = '':0'', socket_fds = [7, 8]\<rparr>"

text \<open>A spawn attempt in which everything goes well: the client handle is there after
  20 ms, and the child raises SIGUSR1 after 350 ms.\<close>

definition world_ok :: world where
  "world_ok =
     \<lparr>socketpair_1 = Socketpair_ok 3 4, socketpair_2 = Socketpair_ok 5 6,
      fork_ret = Fork_parent 4242, execvp_ok = True, mir_xwayland_option = None,
      prior_sigusr1 = SIG_DFL, client_created_at = Some 20, created_client = 1,
      child_ready_at = Some 350, wm_ctor = None, wm_dispatcher_ctor = None,
      wm_event_thread_ctor = None\<rparr>"

definition connector_0 :: connector where
  "connector_0 =
     \<lparr>xwayland_path = ''/usr/bin/Xwayland'', spawner = None, server = None, wm = None,
      wm_event_thread = None, restart_in_progress = False, main_loop = [], trace = []\<rparr>"

text \<open>A server whose child is running, for \<open>is_running\<close>.\<close>

definition server_0 :: XWaylandServer where
  "server_0 =
     \<lparr>xwayland_process = \<lparr>pid = 4242, wayland_server_fd = 4, x11_wm_client_fd = 5\<rparr>,
      wayland_client = 1, running = True, exit_code = None\<rparr>"

text \<open>The connector after \<open>start\<close>, after a spawn that went well, and after a spawn
  in which the constructor of the window manager threw.\<close>

definition world_wm_throws :: world where
  "world_wm_throws = world_ok\<lparr>wm_ctor := Some (Foreign_exception ''xcb connection failed'')\<rparr>"

definition connector_listening :: connector where
  "connector_listening = start True spawner_0 connector_0"

definition connector_running :: connector where
  "connector_running = snd (spawn world_ok connector_listening)"

definition connector_half_built :: connector where
  "connector_half_built = snd (spawn world_wm_throws connector_listening)"

section \<open>Properties\<close>

subsection \<open>Members and trace after each operation\<close>

lemma emit_fields [simp]:
  "xwayland_path (emit es s) = xwayland_path s"
  "spawner (emit es s) = spawner s"
  "server (emit es s) = server s"
  "wm (emit es s) = wm s"
  "wm_event_thread (emit es s) = wm_event_thread s"
  "restart_in_progress (emit es s) = restart_in_progress s"
  "main_loop (emit es s) = main_loop s"
  "trace (emit es s) = trace s @ es"
  by (simp_all add: emit_def)

lemma emit_emit [simp]: "emit es' (emit es s) = emit (es @ es') s"
  by (simp add: emit_def)

lemma new_effects_emit [simp]: "new_effects s (emit es s) = es"
  by (simp add: new_effects_def)

lemma new_effects_append: "trace s' = trace s @ es \<Longrightarrow> new_effects s s' = es"
  by (simp add: new_effects_def)

lemma tear_down_fields [simp]:
  "spawner (tear_down l s) = None"
  "server (tear_down l s) = None"
  "wm (tear_down l s) = None"
  "wm_event_thread (tear_down l s) = None"
  "restart_in_progress (tear_down l s) = restart_in_progress s"
  "main_loop (tear_down l s) = main_loop s"
  "xwayland_path (tear_down l s) = xwayland_path s"
  by (simp_all add: tear_down_def Let_def)


lemma create_spawner_fields [simp]:
  "server (create_spawner l sp s) = server s"
  "wm (create_spawner l sp s) = wm s"
  "wm_event_thread (create_spawner l sp s) = wm_event_thread s"
  "restart_in_progress (create_spawner l sp s) = restart_in_progress s"
  "main_loop (create_spawner l sp s) = main_loop s"
  "xwayland_path (create_spawner l sp s) = xwayland_path s"
  by (simp_all add: create_spawner_def Let_def)

lemma restart_fields [simp]:
  "spawner (restart s) = spawner s"
  "server (restart s) = server s"
  "wm (restart s) = wm s"
  "wm_event_thread (restart s) = wm_event_thread s"
  "restart_in_progress (restart s)"
  "main_loop (restart s) = main_loop s @ [Restart_task]"
  "trace (restart s) = trace s @ [Main_loop_spawn]"
  by (simp_all add: restart_def)

lemma stop_fields [simp]:
  "spawner (stop s) = None"
  "server (stop s) = None"
  "wm (stop s) = None"
  "wm_event_thread (stop s) = None"
  "\<not> restart_in_progress (stop s)"
  "main_loop (stop s) = main_loop s"
  by (simp_all add: stop_def)

lemma start_fields [simp]:
  "server (start b sp s) = server s"
  "wm (start b sp s) = wm s"
  "wm_event_thread (start b sp s) = wm_event_thread s"
  "restart_in_progress (start b sp s) = restart_in_progress s"
  "main_loop (start b sp s) = main_loop s"
  by (simp_all add: start_def Let_def split: option.splits)

lemma socket_name_fields [simp]:
  "spawner (snd (socket_name s)) = spawner s"
  "server (snd (socket_name s)) = server s"
  "wm (snd (socket_name s)) = wm s"
  "wm_event_thread (snd (socket_name s)) = wm_event_thread s"
  "restart_in_progress (snd (socket_name s)) = restart_in_progress s"
  "main_loop (snd (socket_name s)) = main_loop s"
  by (simp_all add: socket_name_def Let_def)

lemma wm_dispatcher_callback_fields [simp]:
  "spawner (snd (wm_dispatcher_callback t s)) = spawner s"
  "server (snd (wm_dispatcher_callback t s)) = server s"
  "wm (snd (wm_dispatcher_callback t s)) = wm s"
  "wm_event_thread (snd (wm_dispatcher_callback t s)) = wm_event_thread s"
  "restart_in_progress (snd (wm_dispatcher_callback t s)) = restart_in_progress s"
  "main_loop (snd (wm_dispatcher_callback t s)) = main_loop s"
  by (simp_all add: wm_dispatcher_callback_def Let_def split: option.splits)

lemma wm_exception_handler_fields [simp]:
  "spawner (wm_exception_handler e s) = spawner s"
  "server (wm_exception_handler e s) = server s"
  "wm (wm_exception_handler e s) = wm s"
  "wm_event_thread (wm_exception_handler e s) = wm_event_thread s"
  "restart_in_progress (wm_exception_handler e s)"
  "main_loop (wm_exception_handler e s) = main_loop s @ [Restart_task]"
  by (simp_all add: wm_exception_handler_def)

subsection \<open>The handshake's wait\<close>

text \<open>The loop looks at the flag every 100 ms and for the last time at the deadline, so
  \<open>spin_wait_for\<close> sees the signal exactly when it comes within 5000 ms.\<close>

lemma spin_wait_loop_aligned:
  "now \<le> e \<Longrightarrow> 100 dvd (e - now) \<Longrightarrow> spin_wait_loop sg e now = xserver_ready sg e"
proof (induction sg e now rule: spin_wait_loop.induct)
  case (1 sg e now)
  show ?case
  proof (cases "now < e \<and> \<not> xserver_ready sg now")
    case True
    then have pos: "0 < e - now" by simp
    from dvd_imp_le [OF "1.prems"(2) pos] have le: "now + 100 \<le> e" by simp
    have "(100::nat) dvd (e - now) - 100"
      by (rule dvd_diff_nat [OF "1.prems"(2) dvd_refl])
    then have "100 dvd (e - (now + 100))" by simp
    with le have "spin_wait_loop sg e (now + 100) = xserver_ready sg e"
      using "1.IH" True by simp
    with True show ?thesis by (subst spin_wait_loop.simps) simp
  next
    case False
    with "1.prems"(1) show ?thesis
      by (subst spin_wait_loop.simps) (auto simp add: xserver_ready_def split: option.splits)
  qed
qed

lemma spin_wait_for_eq: "spin_wait_for sg now = xserver_ready sg (now + 5000)"
  by (simp add: spin_wait_for_def spin_wait_loop_aligned)

subsection \<open>The concrete connectors\<close>

lemma to_string_small [simp]:
  "to_string 3 = ''3''" "to_string 6 = ''6''" "to_string 7 = ''7''" "to_string 8 = ''8''"
  by (simp_all add: to_string_def to_string_nat.simps digit_char_def)

lemma connector_listening_fields [simp]:
  "xwayland_path connector_listening = ''/usr/bin/Xwayland''"
  "spawner connector_listening = Some spawner_0"
  "server connector_listening = None"
  "wm connector_listening = None"
  "wm_event_thread connector_listening = None"
  "\<not> restart_in_progress connector_listening"
  "main_loop connector_listening = []"
  by (simp_all add: connector_listening_def connector_0_def start_def create_spawner_def
      emit_def Let_def)

lemma XWaylandServer_ctor_ok:
  "execvp_ok w \<Longrightarrow> socketpair_1 w = Socketpair_ok 3 4 \<Longrightarrow> socketpair_2 w = Socketpair_ok 5 6 \<Longrightarrow>
   fork_ret w = Fork_parent 4242 \<Longrightarrow> client_created_at w = Some 20 \<Longrightarrow> created_client w = 1 \<Longrightarrow>
   child_ready_at w = Some 350 \<Longrightarrow>
   fst (XWaylandServer_ctor w sp path) = Inr server_0"
  by (simp add: XWaylandServer_ctor_def fork_xwayland_process_def make_socket_pair_def
      connect_xwayland_wl_client_def child_sigusr1_def spin_wait_for_eq xserver_ready_def
      server_0_def)

lemma world_ok_fields [simp]:
  "execvp_ok world_ok" "socketpair_1 world_ok = Socketpair_ok 3 4"
  "socketpair_2 world_ok = Socketpair_ok 5 6" "fork_ret world_ok = Fork_parent 4242"
  "client_created_at world_ok = Some 20" "created_client world_ok = 1"
  "child_ready_at world_ok = Some 350" "wm_ctor world_ok = None"
  "wm_dispatcher_ctor world_ok = None" "wm_event_thread_ctor world_ok = None"
  "mir_xwayland_option world_ok = None" "prior_sigusr1 world_ok = SIG_DFL"
  by (simp_all add: world_ok_def)

lemma connector_running_fields [simp]:
  "spawner connector_running = Some spawner_0"
  "server connector_running = Some server_0"
  "wm connector_running = Some \<lparr>wm_client = 1, wm_control_fd = 5\<rparr>"
  "wm_event_thread connector_running =
     Some \<lparr>thread_name = ''Mir/X11 WM Reader'', watched_fd = 5\<rparr>"
  "\<not> restart_in_progress connector_running"
  "main_loop connector_running = []"
  by (simp_all add: connector_running_def spawn_def spawn_try_def Let_def case_prod_beta
      XWaylandServer_ctor_ok client_def wm_fd_def server_0_def split: option.splits)

lemma connector_half_built_fields [simp]:
  "spawner connector_half_built = Some spawner_0"
  "server connector_half_built = Some server_0"
  "wm connector_half_built = None"
  "wm_event_thread connector_half_built = None"
  "restart_in_progress connector_half_built"
  "main_loop connector_half_built = [Restart_task]"
  by (simp_all add: connector_half_built_def spawn_def spawn_try_def Let_def case_prod_beta
      XWaylandServer_ctor_ok world_wm_throws_def split: option.splits)

subsection \<open>Reading traces\<close>

lemma destroys_unlocked_reset [simp]:
  "destroys_unlocked False (reset c p @ es) = destroys_unlocked False es"
  by (cases p) (simp_all add: reset_def)

lemma moves_locked_reset [simp]:
  "moves_locked h (reset c p @ es) = moves_locked h es"
  by (cases p) (simp_all add: reset_def)

lemma held_after_reset [simp]:
  "held_after h (reset c p @ es) = held_after h es"
  by (cases p) (simp_all add: reset_def)

lemma no_move_out_reset [simp]: "\<not> list_ex is_move_out (reset c p)"
  by (cases p) (simp_all add: reset_def)

lemma no_move_out_moves_before_destroys:
  "\<not> list_ex is_move_out es \<Longrightarrow> moves_before_destroys es"
proof (induction es)
  case Nil
  show ?case by simp
next
  case (Cons e es)
  then show ?case by (cases e) simp_all
qed

lemma moves_before_destroys_resets [simp]:
  "moves_before_destroys
     (reset c1 p1 @ reset c2 p2 @ reset c3 p3 @ reset c4 p4 @ (if b then [Log_info m] else []))"
  by (rule no_move_out_moves_before_destroys) simp

lemma Destroy_in_reset [simp]: "(Destroy c \<in> set (reset c' p)) = (c = c' \<and> p \<noteq> None)"
  by (cases p) (simp_all add: reset_def)


subsection \<open>\<open>stop\<close>\<close>



subsection \<open>The guard of \<open>spawn\<close>\<close>

text \<open>
  Claim C3. In every state in which a server exists, or no spawner exists, or
  \<open>restart_in_progress\<close> is true, \<open>spawn\<close> returns without an exception, leaves the four
  components, the flag and the main loop's queue as they were, and does nothing but
  take and release the mutex: no process is forked, no thread is created.
\<close>

theorem spawn_guarded_is_noop:
  assumes "server s \<noteq> None \<or> spawner s = None \<or> restart_in_progress s"
  shows "fst (spawn w s) = None
     \<and> spawner (snd (spawn w s)) = spawner s \<and> server (snd (spawn w s)) = server s
     \<and> wm (snd (spawn w s)) = wm s \<and> wm_event_thread (snd (spawn w s)) = wm_event_thread s
     \<and> restart_in_progress (snd (spawn w s)) = restart_in_progress s
     \<and> main_loop (snd (spawn w s)) = main_loop s
     \<and> new_effects s (snd (spawn w s)) = [Lock, Unlock]"
proof -
  from assms have "spawn w s = (None, emit [Lock, Unlock] s)"
    by (auto simp add: spawn_def Let_def)
  then show ?thesis by simp
qed

theorem spawn_guarded_is_noop_witness:
  "server connector_running \<noteq> None
   \<and> server (snd (spawn world_ok connector_running)) = Some server_0
   \<and> new_effects connector_running (snd (spawn world_ok connector_running)) = [Lock, Unlock]"
  using spawn_guarded_is_noop [of connector_running world_ok] by simp

subsection \<open>The callback of the dispatcher\<close>

text \<open>
  Claim C10. On every readiness notification the callback takes the mutex, calls
  \<open>handle_events\<close> exactly when the window manager is present, and releases the mutex;
  when the window manager is absent it does nothing else and \<open>handle_events\<close> is not
  called.
\<close>

theorem wm_dispatcher_callback_checks_wm:
  "(Handle_events \<in> set (new_effects s (snd (wm_dispatcher_callback thrown s)))) = (wm s \<noteq> None)
   \<and> new_effects s (snd (wm_dispatcher_callback thrown s)) =
       (if wm s = None then [Lock, Unlock] else [Lock, Handle_events, Unlock])
   \<and> (wm s = None \<longrightarrow> wm_dispatcher_callback thrown s = (None, emit [Lock, Unlock] s))"
  by (cases "wm s") (simp_all add: wm_dispatcher_callback_def Let_def)

theorem wm_dispatcher_callback_checks_wm_witness:
  "wm (stop connector_running) = None
   \<and> wm_dispatcher_callback (Some (Runtime_error ''x'')) (stop connector_running)
       = (None, emit [Lock, Unlock] (stop connector_running))
   \<and> new_effects connector_running (snd (wm_dispatcher_callback None connector_running))
       = [Lock, Handle_events, Unlock]"
  using wm_dispatcher_callback_checks_wm [of "stop connector_running" "Some (Runtime_error ''x'')"]
    wm_dispatcher_callback_checks_wm [of connector_running None]
  by simp

subsection \<open>\<open>stop\<close> against a pending restart\<close>

lemma restart_task_1_superseded:
  "\<not> restart_in_progress s \<Longrightarrow> restart_task_1 True s = (False, emit [Lock, Unlock] s)"
  by (simp add: restart_task_1_def Let_def)

lemma restart_task_2_superseded:
  "\<not> restart_in_progress s \<Longrightarrow> restart_task_2 sp s = emit [Lock, Unlock] s"
  by (simp add: restart_task_2_def Let_def)

lemma main_loop_step_stopped:
  assumes "components_absent s" "\<not> restart_in_progress s"
  shows "components_absent (main_loop_step a sp s) \<and> \<not> restart_in_progress (main_loop_step a sp s)
         \<and> (\<exists>es. trace (main_loop_step a sp s) = trace s @ es \<and> set es \<subseteq> {Lock, Unlock})"
proof (cases "main_loop s")
  case Nil
  with assms show ?thesis by (simp add: main_loop_step_def)
next
  case (Cons t q)
  show ?thesis
  proof (cases t)
    case Restart_task
    with Cons assms show ?thesis
      by (cases a) (simp_all add: main_loop_step_def restart_task_1_def Let_def components_absent_def)
  next
    case Restart_task_after_tear_down
    with Cons assms show ?thesis
      by (simp add: main_loop_step_def restart_task_2_def Let_def components_absent_def)
  qed
qed

lemma run_main_loop_stopped:
  "components_absent s \<Longrightarrow> \<not> restart_in_progress s \<Longrightarrow>
   components_absent (run (map (Main_loop_step True) sps) s)
   \<and> \<not> restart_in_progress (run (map (Main_loop_step True) sps) s)
   \<and> (\<exists>es. trace (run (map (Main_loop_step True) sps) s) = trace s @ es \<and> set es \<subseteq> {Lock, Unlock})"
proof (induction sps arbitrary: s)
  case Nil
  then show ?case by simp
next
  case (Cons sp sps)
  from main_loop_step_stopped [OF Cons.prems, of True sp]
  obtain es where st: "components_absent (main_loop_step True sp s)"
      "\<not> restart_in_progress (main_loop_step True sp s)"
      "trace (main_loop_step True sp s) = trace s @ es" "set es \<subseteq> {Lock, Unlock}"
    by blast
  from Cons.IH [OF st(1) st(2)]
  obtain es' where
      "components_absent (run (map (Main_loop_step True) sps) (main_loop_step True sp s))"
      "\<not> restart_in_progress (run (map (Main_loop_step True) sps) (main_loop_step True sp s))"
      "trace (run (map (Main_loop_step True) sps) (main_loop_step True sp s))
         = trace (main_loop_step True sp s) @ es'" "set es' \<subseteq> {Lock, Unlock}"
    by blast
  with st show ?case
    by (intro conjI exI [of _ "es @ es'"]) simp_all
qed

text \<open>
  Claim C2. Let \<open>restart\<close> post its closure and set the flag, and let \<open>stop\<close> run before the
  closure does (or between the closure's \<open>tear_down\<close> and its second taking of the lock).
  Then \<open>stop\<close> leaves all four components absent and the flag false with the closure
  still queued; the closure, when it runs, takes the lock, sees the flag false and
  returns: it moves nothing out, destroys nothing and creates no spawner. However many
  closures the main loop then runs, the components stay absent and nothing happens but
  taking and releasing the mutex.
\<close>

theorem stop_preempts_deferred_restart:
  "let s1 = restart s; s2 = stop s1; s3 = run (map (Main_loop_step True) sps) s2 in
     restart_in_progress s1 \<and> main_loop s1 = main_loop s @ [Restart_task]
     \<and> components_absent s2 \<and> \<not> restart_in_progress s2 \<and> main_loop s2 = main_loop s1
     \<and> restart_task_1 True s2 = (False, emit [Lock, Unlock] s2)
     \<and> restart_task_2 sp s2 = emit [Lock, Unlock] s2
     \<and> restart_task True sp s2 = emit [Lock, Unlock] s2
     \<and> components_absent s3 \<and> \<not> restart_in_progress s3
     \<and> set (new_effects s2 s3) \<subseteq> {Lock, Unlock}"
proof -
  let ?s2 = "stop (restart s)"
  have a: "components_absent ?s2" "\<not> restart_in_progress ?s2"
    by (simp_all add: components_absent_def)
  from run_main_loop_stopped [OF a, of sps]
  obtain es where r: "components_absent (run (map (Main_loop_step True) sps) ?s2)"
      "\<not> restart_in_progress (run (map (Main_loop_step True) sps) ?s2)"
      "trace (run (map (Main_loop_step True) sps) ?s2) = trace ?s2 @ es" "set es \<subseteq> {Lock, Unlock}"
    by blast
  from r(3) have "new_effects ?s2 (run (map (Main_loop_step True) sps) ?s2) = es"
    by (rule new_effects_append)
  with r a show ?thesis
    by (simp add: Let_def restart_task_1_superseded restart_task_2_superseded restart_task_def)
qed

theorem stop_preempts_deferred_restart_witness:
  "main_loop (stop (restart connector_running)) = [Restart_task]
   \<and> spawner (run [Main_loop_step True spawner_0] (stop (restart connector_running))) = None
   \<and> main_loop (run [Main_loop_step True spawner_0] (stop (restart connector_running))) = []
   \<and> new_effects (stop (restart connector_running))
        (run [Main_loop_step True spawner_0] (stop (restart connector_running))) = [Lock, Unlock]"
proof -
  have "main_loop_step True spawner_0 (stop (restart connector_running))
          = emit [Lock, Unlock] ((stop (restart connector_running))\<lparr>main_loop := []\<rparr>)"
    by (simp add: main_loop_step_def restart_task_1_def Let_def)
  with stop_preempts_deferred_restart [of connector_running "[spawner_0]" spawner_0]
  show ?thesis
    by (simp add: Let_def components_absent_def new_effects_def)
qed

subsection \<open>The \<open>try\<close> block of \<open>spawn\<close>\<close>

lemma spawn_try_trace_grows: "\<exists>es. trace (snd (spawn_try w s)) = trace s @ es"
  by (auto simp add: spawn_try_def Let_def split: option.splits sum.splits prod.splits)

lemma spawn_try_main_loop: "main_loop (snd (spawn_try w s)) = main_loop s"
  by (auto simp add: spawn_try_def Let_def split: option.splits sum.splits prod.splits)

lemma spawn_try_None_iff:
  "spawner s = Some sp \<Longrightarrow>
   (fst (spawn_try w s) = None) =
     (\<not> isl (fst (XWaylandServer_ctor w sp (xwayland_path s))) \<and> wm_ctor w = None
      \<and> wm_dispatcher_ctor w = None \<and> wm_event_thread_ctor w = None)"
  by (auto simp add: spawn_try_def Let_def split: option.splits sum.splits prod.splits)

lemma spawn_failure_restarts:
  assumes g: "server s = None" "spawner s \<noteq> None" "\<not> restart_in_progress s"
    and f: "fst (spawn_try w (emit [Lock] s)) = Some e"
  shows "restart_in_progress (snd (spawn w s))
     \<and> main_loop (snd (spawn w s)) = main_loop s @ [Restart_task]
     \<and> (\<exists>es. new_effects s (snd (spawn w s)) =
            Lock # es @ [Log_error e ''Spawning XWayland failed'', Main_loop_spawn, Unlock])"
proof -
  obtain s2 where s2: "spawn_try w (emit [Lock] s) = (Some e, s2)"
    using f by (cases "spawn_try w (emit [Lock] s)") simp
  from spawn_try_trace_grows [of w "emit [Lock] s"] s2
  obtain es where es: "trace s2 = trace s @ Lock # es" by auto
  from spawn_try_main_loop [of w "emit [Lock] s"] s2 have ml: "main_loop s2 = main_loop s"
    by simp
  have sp: "snd (spawn w s)
              = emit [Unlock] (restart (emit [Log_error e ''Spawning XWayland failed''] s2))"
    using g s2 by (auto simp add: spawn_def Let_def)
  have "new_effects s (snd (spawn w s))
          = Lock # es @ [Log_error e ''Spawning XWayland failed'', Main_loop_spawn, Unlock]"
    by (rule new_effects_append) (simp add: sp es)
  then show ?thesis using sp ml by simp
qed

subsection \<open>The three components of the triad\<close>

lemma spawn_try_prefix:
  "triad_prefix s \<Longrightarrow> server s = None \<Longrightarrow> triad_prefix (snd (spawn_try w s))"
  by (auto simp add: spawn_try_def triad_prefix_def Let_def
      split: option.splits sum.splits prod.splits)

lemma spawn_prefix:
  assumes p: "triad_prefix s"
  shows "triad_prefix (snd (spawn w s))"
proof (cases "server s \<noteq> None \<or> spawner s = None \<or> restart_in_progress s")
  case True
  then have "snd (spawn w s) = emit [Lock, Unlock] s" by (auto simp add: spawn_def Let_def)
  with p show ?thesis by (simp add: triad_prefix_def)
next
  case False
  then have srv: "server (emit [Lock] s) = None" by simp
  from p have "triad_prefix (emit [Lock] s)" by (simp add: triad_prefix_def)
  from spawn_try_prefix [OF this srv, of w]
  have "triad_prefix (snd (spawn_try w (emit [Lock] s)))" .
  with False show ?thesis
    by (auto simp add: spawn_def Let_def triad_prefix_def split: prod.splits option.splits)
qed

lemma main_loop_step_prefix: "triad_prefix s \<Longrightarrow> triad_prefix (main_loop_step a sp s)"
  by (auto simp add: main_loop_step_def restart_task_1_def restart_task_2_def Let_def
      triad_prefix_def split: list.splits task.splits)

lemma step_prefix:
  assumes "triad_prefix s"
  shows "triad_prefix (step ev s)"
proof (cases ev)
  case (Spawn w)
  with assms show ?thesis by (simp add: spawn_prefix)
next
  case (Main_loop_step a sp)
  with assms show ?thesis by (simp add: main_loop_step_prefix)
next
  case (Start b sp)
  with assms show ?thesis by (simp add: triad_prefix_def)
next
  case Stop
  then show ?thesis by (simp add: triad_prefix_def)
next
  case Socket_name
  with assms show ?thesis by (simp add: triad_prefix_def)
next
  case (Wm_readable t)
  with assms show ?thesis by (simp add: triad_prefix_def)
next
  case (Wm_error e)
  with assms show ?thesis by (simp add: triad_prefix_def)
qed

lemma run_prefix: "triad_prefix s \<Longrightarrow> triad_prefix (run evs s)"
  by (induction evs arbitrary: s) (simp_all add: step_prefix)

lemma spawn_try_all_or_none:
  "server s = None \<Longrightarrow> wm s = None \<Longrightarrow> wm_event_thread s = None \<Longrightarrow>
   fst (spawn_try w s) = None \<Longrightarrow> triad_all_or_none (snd (spawn_try w s))"
  by (auto simp add: spawn_try_def triad_all_or_none_def Let_def
      split: option.splits sum.splits prod.splits)

lemma spawn_breaks_all_or_none:
  assumes "triad_all_or_none s" "\<not> triad_all_or_none (snd (spawn w s))"
  shows "fst (spawn_try w (emit [Lock] s)) \<noteq> None \<and> restart_in_progress (snd (spawn w s))"
proof (cases "server s \<noteq> None \<or> spawner s = None \<or> restart_in_progress s")
  case True
  then have "snd (spawn w s) = emit [Lock, Unlock] s" by (auto simp add: spawn_def Let_def)
  with assms show ?thesis by (simp add: triad_all_or_none_def)
next
  case False
  with assms(1) have e: "server (emit [Lock] s) = None" "wm (emit [Lock] s) = None"
      "wm_event_thread (emit [Lock] s) = None"
    by (auto simp add: triad_all_or_none_def)
  show ?thesis
  proof (cases "fst (spawn_try w (emit [Lock] s))")
    case None
    from spawn_try_all_or_none [OF e None]
    have "triad_all_or_none (snd (spawn_try w (emit [Lock] s)))" .
    with None False assms(2) show ?thesis
      by (auto simp add: spawn_def Let_def triad_all_or_none_def split: prod.splits option.splits)
  next
    case (Some e)
    with False show ?thesis
      by (auto simp add: spawn_def Let_def split: prod.splits option.splits)
  qed
qed

lemma main_loop_step_all_or_none:
  "triad_all_or_none s \<Longrightarrow> triad_all_or_none (main_loop_step a sp s)"
  by (auto simp add: main_loop_step_def restart_task_1_def restart_task_2_def Let_def
      triad_all_or_none_def split: list.splits task.splits)

lemma step_breaks_all_or_none:
  assumes "triad_all_or_none s" "\<not> triad_all_or_none (step ev s)"
  shows "\<exists>w. ev = Spawn w \<and> fst (spawn_try w (emit [Lock] s)) \<noteq> None
             \<and> restart_in_progress (step ev s)"
proof (cases ev)
  case (Spawn w)
  with assms spawn_breaks_all_or_none [of s w] show ?thesis by simp
next
  case (Main_loop_step a sp)
  with assms main_loop_step_all_or_none [of s a sp] show ?thesis by simp
next
  case (Start b sp)
  with assms show ?thesis by (simp add: triad_all_or_none_def)
next
  case Stop
  with assms show ?thesis by (simp add: triad_all_or_none_def)
next
  case Socket_name
  with assms show ?thesis by (simp add: triad_all_or_none_def)
next
  case (Wm_readable t)
  with assms show ?thesis by (simp add: triad_all_or_none_def)
next
  case (Wm_error e)
  with assms show ?thesis by (simp add: triad_all_or_none_def)
qed

lemma all_or_none_prefix: "triad_all_or_none s \<Longrightarrow> triad_prefix s"
  by (auto simp add: triad_all_or_none_def triad_prefix_def)

lemma prefix_not_all_or_none:
  "triad_prefix s \<Longrightarrow> \<not> triad_all_or_none s \<Longrightarrow> server s \<noteq> None \<and> wm_event_thread s = None"
  by (auto simp add: triad_all_or_none_def triad_prefix_def)

lemma spawn_breaks_main_loop:
  assumes "triad_all_or_none s" "\<not> triad_all_or_none (snd (spawn w s))"
  shows "main_loop (snd (spawn w s)) = main_loop s @ [Restart_task]"
proof -
  from spawn_breaks_all_or_none [OF assms]
  have f: "fst (spawn_try w (emit [Lock] s)) \<noteq> None" by blast
  have g: "\<not> (server s \<noteq> None \<or> spawner s = None \<or> restart_in_progress s)"
  proof
    assume "server s \<noteq> None \<or> spawner s = None \<or> restart_in_progress s"
    then have "snd (spawn w s) = emit [Lock, Unlock] s" by (auto simp add: spawn_def Let_def)
    with assms show False by (simp add: triad_all_or_none_def)
  qed
  from f obtain e where "fst (spawn_try w (emit [Lock] s)) = Some e" by auto
  with g spawn_failure_restarts [of s w e] show ?thesis by simp
qed

text \<open>
  The flag does not stay set for as long as a half-built triad stays. When \<open>stop\<close>,
  \<open>start\<close> and a second failing \<open>spawn\<close> come between the two pieces of an earlier closure,
  that closure clears the flag the second \<open>spawn\<close> has set, and the closure the second
  \<open>spawn\<close> posted returns at once: the server stays without window manager and thread.
\<close>

lemma half_built_outlasts_restart:
  "let s = run [Start True spawner_0, Spawn world_wm_throws, Main_loop_step True spawner_0,
               Stop, Start True spawner_0, Spawn world_wm_throws,
               Main_loop_step True spawner_0, Main_loop_step True spawner_0] connector_0
   in server s = Some server_0 \<and> wm s = None \<and> wm_event_thread s = None
      \<and> \<not> restart_in_progress s \<and> main_loop s = []"
  by (simp add: Let_def connector_0_def start_def create_spawner_def spawn_def spawn_try_def
      case_prod_beta XWaylandServer_ctor_ok world_wm_throws_def main_loop_step_def
      restart_task_1_def restart_task_2_def restart_def stop_def tear_down_def emit_def
      split: option.splits)

text \<open>
  Claim C5, as stated: after every operation the server, the window manager and the
  event thread are all present or all absent. It fails after a \<open>spawn\<close> in which the
  server was built and the constructor of the window manager threw: \<open>spawn\<close> returns with
  the server in place and the other two absent.
\<close>

theorem triad_all_or_none_counterexample:
  "server (snd (spawn world_wm_throws (start True spawner_0 connector_0))) = Some server_0
   \<and> wm (snd (spawn world_wm_throws (start True spawner_0 connector_0))) = None
   \<and> \<not> triad_all_or_none (snd (spawn world_wm_throws (start True spawner_0 connector_0)))"
  using connector_half_built_fields
  by (simp add: triad_all_or_none_def connector_half_built_def connector_listening_def)

text \<open>
  Claim C5, amended. In every state a run reaches from a freshly constructed connector
  (and from any state that has the property), the components present are the first
  ones in the order of construction: event thread only with window manager, window
  manager only with server. After \<open>stop\<close>, and after the \<open>tear_down\<close> of the deferred
  closure, all three are absent. An operation that starts with all three present or
  all absent ends otherwise only if it is a \<open>spawn\<close> whose \<open>try\<close> block threw; when that
  \<open>spawn\<close> returns, the server is present, the event thread is absent, the flag is set
  and the closure is queued. The spawner is not tied to the three.
\<close>

theorem triad_prefix_invariant:
  "(case XWaylandConnector_ctor True path of
      Inl f \<Rightarrow> False
    | Inr s0 \<Rightarrow> triad_all_or_none s0 \<and> triad_prefix (run evs s0))
   \<and> (triad_prefix sa \<longrightarrow> triad_prefix (run evs sa))
   \<and> server (stop sb) = None \<and> wm (stop sb) = None \<and> wm_event_thread (stop sb) = None
   \<and> (restart_in_progress sc \<longrightarrow>
        fst (restart_task_1 True sc)
        \<and> server (snd (restart_task_1 True sc)) = None
        \<and> wm (snd (restart_task_1 True sc)) = None
        \<and> wm_event_thread (snd (restart_task_1 True sc)) = None)
   \<and> (triad_all_or_none s \<and> \<not> triad_all_or_none (step ev s) \<longrightarrow>
        (\<exists>w. ev = Spawn w \<and> fst (spawn_try w (emit [Lock] s)) \<noteq> None
             \<and> server (step ev s) \<noteq> None \<and> wm_event_thread (step ev s) = None
             \<and> restart_in_progress (step ev s)
             \<and> main_loop (step ev s) = main_loop s @ [Restart_task]))"
proof (intro conjI impI)
  have "triad_prefix \<lparr>xwayland_path = path, spawner = None, server = None, wm = None,
          wm_event_thread = None, restart_in_progress = False, main_loop = [], trace = []\<rparr>"
    by (simp add: triad_prefix_def)
  then show "case XWaylandConnector_ctor True path of
      Inl f \<Rightarrow> False
    | Inr s0 \<Rightarrow> triad_all_or_none s0 \<and> triad_prefix (run evs s0)"
    by (simp add: XWaylandConnector_ctor_def run_prefix triad_all_or_none_def)
next
  assume "triad_prefix sa"
  then show "triad_prefix (run evs sa)" by (rule run_prefix)
next
  show "server (stop sb) = None" "wm (stop sb) = None" "wm_event_thread (stop sb) = None"
    by simp_all
next
  assume "restart_in_progress sc"
  then show "fst (restart_task_1 True sc)"
    "server (snd (restart_task_1 True sc)) = None"
    "wm (snd (restart_task_1 True sc)) = None"
    "wm_event_thread (snd (restart_task_1 True sc)) = None"
    by (simp_all add: restart_task_1_def Let_def)
next
  assume a: "triad_all_or_none s \<and> \<not> triad_all_or_none (step ev s)"
  with step_breaks_all_or_none [of s ev]
  obtain w where w: "ev = Spawn w" "fst (spawn_try w (emit [Lock] s)) \<noteq> None"
      "restart_in_progress (step ev s)"
    by blast
  from a have "triad_prefix (step ev s)" by (simp add: all_or_none_prefix step_prefix)
  with a have p: "server (step ev s) \<noteq> None \<and> wm_event_thread (step ev s) = None"
    by (simp add: prefix_not_all_or_none)
  from a w(1) spawn_breaks_main_loop [of s w]
  have "main_loop (step ev s) = main_loop s @ [Restart_task]" by simp
  with w p show "\<exists>w. ev = Spawn w \<and> fst (spawn_try w (emit [Lock] s)) \<noteq> None
             \<and> server (step ev s) \<noteq> None \<and> wm_event_thread (step ev s) = None
             \<and> restart_in_progress (step ev s)
             \<and> main_loop (step ev s) = main_loop s @ [Restart_task]"
    by blast
qed

theorem triad_prefix_invariant_witness:
  "triad_prefix connector_listening
   \<and> triad_prefix (run [Spawn world_wm_throws, Socket_name] connector_listening)
   \<and> restart_in_progress connector_half_built
   \<and> server (snd (restart_task_1 True connector_half_built)) = None
   \<and> wm_event_thread (snd (restart_task_1 True connector_half_built)) = None
   \<and> triad_all_or_none connector_listening
   \<and> \<not> triad_all_or_none (step (Spawn world_wm_throws) connector_listening)
   \<and> server (step (Spawn world_wm_throws) connector_listening) \<noteq> None
   \<and> restart_in_progress (step (Spawn world_wm_throws) connector_listening)
   \<and> main_loop (step (Spawn world_wm_throws) connector_listening) = [Restart_task]"
  using triad_prefix_invariant [where path = "''/usr/bin/Xwayland''"
      and evs = "[Spawn world_wm_throws, Socket_name]" and sa = connector_listening
      and sb = connector_running and sc = connector_half_built
      and s = connector_listening and ev = "Spawn world_wm_throws"]
    connector_half_built_fields
  by (simp add: triad_prefix_def triad_all_or_none_def connector_half_built_def)

subsection \<open>Failures of the triad\<close>

lemma spawn_never_throws: "fst (spawn w s) = None"
  by (simp add: spawn_def Let_def split: prod.splits option.splits)

lemma threaded_dispatch_restarts:
  assumes "wm s \<noteq> None"
  shows "restart_in_progress (snd (threaded_dispatch (Some e) s))
     \<and> main_loop (snd (threaded_dispatch (Some e) s)) = main_loop s @ [Restart_task]
     \<and> new_effects s (snd (threaded_dispatch (Some e) s)) =
         [Lock, Handle_events, Unlock,
          Log_error e ''X11 window manager error, killing XWayland'',
          Lock, Main_loop_spawn, Unlock]"
proof -
  from assms obtain m where m: "wm s = Some m" by auto
  then have sd: "snd (threaded_dispatch (Some e) s)
           = wm_exception_handler e (emit [Lock, Handle_events, Unlock] s)"
    by (simp add: threaded_dispatch_def wm_dispatcher_callback_def Let_def)
  have "new_effects s (snd (threaded_dispatch (Some e) s)) =
         [Lock, Handle_events, Unlock,
          Log_error e ''X11 window manager error, killing XWayland'',
          Lock, Main_loop_spawn, Unlock]"
    by (rule new_effects_append) (simp add: sd wm_exception_handler_def)
  then show ?thesis by (simp add: sd)
qed

text \<open>
  Claim C1. No exception leaves \<open>spawn\<close>. The \<open>try\<close> block of \<open>spawn\<close> throws exactly when the
  constructor of the server, of the window manager, of the dispatcher or of the event
  thread throws; whenever it throws, the exception is logged, \<open>restart\<close> is called (the
  flag is set and the closure posted) and the mutex is released. On the event thread,
  an exception leaving \<open>handle_events\<close> does not end the thread: it is logged and
  \<open>restart\<close> is called under the mutex.
\<close>

theorem triad_failures_become_restart:
  "fst (spawn w s) = None
   \<and> (spawner s = Some sp \<longrightarrow>
        (fst (spawn_try w (emit [Lock] s)) = None) =
          (\<not> isl (fst (XWaylandServer_ctor w sp (xwayland_path s))) \<and> wm_ctor w = None
           \<and> wm_dispatcher_ctor w = None \<and> wm_event_thread_ctor w = None))
   \<and> (server s = None \<and> spawner s \<noteq> None \<and> \<not> restart_in_progress s
        \<and> fst (spawn_try w (emit [Lock] s)) = Some e \<longrightarrow>
        restart_in_progress (snd (spawn w s))
        \<and> main_loop (snd (spawn w s)) = main_loop s @ [Restart_task]
        \<and> (\<exists>es. new_effects s (snd (spawn w s)) =
               Lock # es @ [Log_error e ''Spawning XWayland failed'', Main_loop_spawn, Unlock]))
   \<and> fst (threaded_dispatch thrown sa) = Thread_running
   \<and> (wm sa \<noteq> None \<longrightarrow>
        restart_in_progress (snd (threaded_dispatch (Some ea) sa))
        \<and> main_loop (snd (threaded_dispatch (Some ea) sa)) = main_loop sa @ [Restart_task]
        \<and> new_effects sa (snd (threaded_dispatch (Some ea) sa)) =
            [Lock, Handle_events, Unlock,
             Log_error ea ''X11 window manager error, killing XWayland'',
             Lock, Main_loop_spawn, Unlock])"
proof (intro conjI impI)
  show "fst (spawn w s) = None" by (rule spawn_never_throws)
next
  assume "spawner s = Some sp"
  then have "spawner (emit [Lock] s) = Some sp" by simp
  from spawn_try_None_iff [OF this, of w]
  show "(fst (spawn_try w (emit [Lock] s)) = None) =
          (\<not> isl (fst (XWaylandServer_ctor w sp (xwayland_path s))) \<and> wm_ctor w = None
           \<and> wm_dispatcher_ctor w = None \<and> wm_event_thread_ctor w = None)"
    by simp
next
  show "fst (threaded_dispatch thrown sa) = Thread_running"
    by (simp add: threaded_dispatch_def split: prod.splits option.splits)
next
  assume a: "server s = None \<and> spawner s \<noteq> None \<and> \<not> restart_in_progress s
        \<and> fst (spawn_try w (emit [Lock] s)) = Some e"
  then have r: "restart_in_progress (snd (spawn w s))
     \<and> main_loop (snd (spawn w s)) = main_loop s @ [Restart_task]
     \<and> (\<exists>es. new_effects s (snd (spawn w s)) =
            Lock # es @ [Log_error e ''Spawning XWayland failed'', Main_loop_spawn, Unlock])"
    using spawn_failure_restarts [of s w e] by blast
  from r show "restart_in_progress (snd (spawn w s))" by blast
  from r show "main_loop (snd (spawn w s)) = main_loop s @ [Restart_task]" by blast
  from r show "\<exists>es. new_effects s (snd (spawn w s)) =
            Lock # es @ [Log_error e ''Spawning XWayland failed'', Main_loop_spawn, Unlock]"
    by blast
next
  assume a: "wm sa \<noteq> None"
  note r = threaded_dispatch_restarts [OF a, of ea]
  from r show "restart_in_progress (snd (threaded_dispatch (Some ea) sa))" by blast
  from r show "main_loop (snd (threaded_dispatch (Some ea) sa)) = main_loop sa @ [Restart_task]"
    by blast
  from r show "new_effects sa (snd (threaded_dispatch (Some ea) sa)) =
            [Lock, Handle_events, Unlock,
             Log_error ea ''X11 window manager error, killing XWayland'',
             Lock, Main_loop_spawn, Unlock]"
    by blast
qed

lemma spawn_try_wm_throws:
  "fst (spawn_try world_wm_throws (emit [Lock] connector_listening))
     = Some (Foreign_exception ''xcb connection failed'')"
  by (simp add: spawn_try_def Let_def case_prod_beta XWaylandServer_ctor_ok world_wm_throws_def
      split: option.splits)

theorem triad_failures_become_restart_witness:
  "spawner connector_listening = Some spawner_0
   \<and> server connector_listening = None \<and> \<not> restart_in_progress connector_listening
   \<and> fst (spawn_try world_wm_throws (emit [Lock] connector_listening))
       = Some (Foreign_exception ''xcb connection failed'')
   \<and> fst (spawn world_wm_throws connector_listening) = None
   \<and> main_loop (snd (spawn world_wm_throws connector_listening)) = [Restart_task]
   \<and> wm connector_running \<noteq> None
   \<and> fst (threaded_dispatch (Some (Runtime_error ''bad window'')) connector_running)
       = Thread_running
   \<and> main_loop (snd (threaded_dispatch (Some (Runtime_error ''bad window'')) connector_running))
       = [Restart_task]"
  using triad_failures_become_restart [where s = connector_listening and w = world_wm_throws
      and sp = spawner_0 and e = "Foreign_exception ''xcb connection failed''"
      and sa = connector_running and thrown = "Some (Runtime_error ''bad window'')"
      and ea = "Runtime_error ''bad window''"]
    spawn_try_wm_throws
  by simp

subsection \<open>\<open>is_running\<close>\<close>

lemma is_running_not_running:
  "\<not> running s \<Longrightarrow> is_running r s = (False, s, [Server_lock, Server_unlock])"
  by (simp add: is_running_def)

lemma is_running_result:
  "fst (is_running r s) = (running s \<and> wait_ret r = 0)"
  "running (fst (snd (is_running r s))) = (running s \<and> wait_ret r = 0)"
  by (auto simp add: is_running_def Let_def split: wait_status.splits)

lemma is_running_still_running:
  "running s \<Longrightarrow> wait_ret r = 0 \<Longrightarrow> fst (snd (is_running r s)) = s"
  by (simp add: is_running_def)

lemma is_running_calls_not_running:
  "\<not> running s \<Longrightarrow>
   is_running_calls rs s =
     (replicate (length rs) False, s, concat (replicate (length rs) [Server_lock, Server_unlock]))"
  by (induction rs) (simp_all add: is_running_not_running)

lemma is_running_calls_monotone:
  "\<exists>n\<le>length rs. fst (is_running_calls rs s) = replicate n True @ replicate (length rs - n) False"
proof (induction rs arbitrary: s)
  case Nil
  show ?case by simp
next
  case (Cons r rs)
  show ?case
  proof (cases "running s \<and> wait_ret r = 0")
    case True
    then have s1: "fst (snd (is_running r s)) = s" and b: "fst (is_running r s)"
      by (simp_all add: is_running_still_running is_running_result)
    from Cons.IH [of s] obtain n where n: "n \<le> length rs"
        "fst (is_running_calls rs s) = replicate n True @ replicate (length rs - n) False"
      by blast
    from s1 b n have "fst (is_running_calls (r # rs) s)
        = replicate (Suc n) True @ replicate (length (r # rs) - Suc n) False"
      by (simp add: case_prod_beta)
    with n(1) show ?thesis by (intro exI [of _ "Suc n"]) simp
  next
    case False
    then have "\<not> running (fst (snd (is_running r s)))" and "\<not> fst (is_running r s)"
      by (simp_all add: is_running_result)
    then have "fst (is_running_calls (r # rs) s) = replicate (length (r # rs)) False"
      by (simp add: case_prod_beta is_running_calls_not_running)
    then show ?thesis by (intro exI [of _ 0]) simp
  qed
qed

text \<open>
  Claim C7. \<open>is_running\<close> works under the record's lock and, while \<open>running\<close> is true, asks
  \<open>waitpid\<close> with \<open>WNOHANG\<close>. The first call in which \<open>waitpid\<close> reports the child sets
  \<open>running\<close> to false and, when the child exited, stores its exit code. Once \<open>running\<close> is
  false a call returns false, changes nothing and does not call \<open>waitpid\<close>. So the
  results of any sequence of calls are some \<open>True\<close>s followed by \<open>False\<close>s only.
\<close>

theorem is_running_latches:
  "(running s \<and> wait_ret r \<noteq> 0 \<longrightarrow>
      \<not> fst (is_running r s) \<and> \<not> running (fst (snd (is_running r s)))
      \<and> snd (snd (is_running r s))
          = [Server_lock, Waitpid_WNOHANG (pid (xwayland_process s)), Server_unlock]
      \<and> (\<forall>c. wait_status r = Exited c \<longrightarrow> exit_code (fst (snd (is_running r s))) = Some c))
   \<and> (running s \<and> wait_ret r = 0 \<longrightarrow>
      is_running r s
        = (True, s, [Server_lock, Waitpid_WNOHANG (pid (xwayland_process s)), Server_unlock]))
   \<and> (\<not> running s \<longrightarrow> is_running r s = (False, s, [Server_lock, Server_unlock]))
   \<and> (\<exists>n\<le>length rs.
        fst (is_running_calls rs s) = replicate n True @ replicate (length rs - n) False)
   \<and> (\<not> running s \<longrightarrow>
        is_running_calls rs s =
          (replicate (length rs) False, s,
           concat (replicate (length rs) [Server_lock, Server_unlock])))"
proof (intro conjI impI)
  assume a: "running s \<and> wait_ret r \<noteq> 0"
  then show "\<not> fst (is_running r s)" "\<not> running (fst (snd (is_running r s)))"
    by (simp_all add: is_running_result)
  from a show "snd (snd (is_running r s))
          = [Server_lock, Waitpid_WNOHANG (pid (xwayland_process s)), Server_unlock]"
    by (simp add: is_running_def Let_def)
  from a show "\<forall>c. wait_status r = Exited c \<longrightarrow> exit_code (fst (snd (is_running r s))) = Some c"
    by (simp add: is_running_def Let_def)
next
  assume "running s \<and> wait_ret r = 0"
  then show "is_running r s
        = (True, s, [Server_lock, Waitpid_WNOHANG (pid (xwayland_process s)), Server_unlock])"
    by (simp add: is_running_def)
next
  assume "\<not> running s"
  then show "is_running r s = (False, s, [Server_lock, Server_unlock])"
    by (rule is_running_not_running)
next
  show "\<exists>n\<le>length rs.
        fst (is_running_calls rs s) = replicate n True @ replicate (length rs - n) False"
    by (rule is_running_calls_monotone)
next
  assume "\<not> running s"
  then show "is_running_calls rs s =
          (replicate (length rs) False, s,
           concat (replicate (length rs) [Server_lock, Server_unlock]))"
    by (rule is_running_calls_not_running)
qed

theorem is_running_latches_witness:
  "running server_0
   \<and> is_running \<lparr>wait_ret = 4242, wait_status = Exited 3\<rparr> server_0
       = (False, server_0\<lparr>running := False, exit_code := Some 3\<rparr>,
          [Server_lock, Waitpid_WNOHANG 4242, Server_unlock])
   \<and> is_running \<lparr>wait_ret = 4242, wait_status = Exited 9\<rparr>
        (server_0\<lparr>running := False, exit_code := Some 3\<rparr>)
       = (False, server_0\<lparr>running := False, exit_code := Some 3\<rparr>, [Server_lock, Server_unlock])
   \<and> fst (is_running_calls
        [\<lparr>wait_ret = 0, wait_status = Stopped_or_other\<rparr>,
         \<lparr>wait_ret = 4242, wait_status = Exited 3\<rparr>,
         \<lparr>wait_ret = 4242, wait_status = Exited 9\<rparr>] server_0) = [True, False, False]"
  using is_running_latches [of server_0 "\<lparr>wait_ret = 4242, wait_status = Exited 3\<rparr>" "[]"]
    is_running_latches [of "server_0\<lparr>running := False, exit_code := Some 3\<rparr>"
      "\<lparr>wait_ret = 4242, wait_status = Exited 9\<rparr>" "[]"]
  by (simp add: is_running_def server_0_def)

subsection \<open>The child's \<open>exec\<close>\<close>

text \<open>
  Claim C9. Whenever a child is forked (both socket pairs and \<open>fork\<close> succeeded), the
  child clears close-on-exec on its two descriptors, sets \<open>WAYLAND_SOCKET\<close> to the
  number of its Wayland descriptor, sets SIGUSR1 to ignored, clears close-on-exec on
  every listening descriptor and then calls \<open>execvp\<close> on the binary with the arguments
  path, display, \<open>-rootless\<close>, \<open>-wm\<close> and the control descriptor's number, \<open>-terminate\<close>,
  one \<open>-listen\<close> and number for each listening descriptor, and the option of
  \<open>MIR_XWAYLAND_OPTION\<close> if set. If \<open>execvp\<close> fails the child prints the error and
  aborts. The parent keeps the other two ends.
\<close>

theorem child_exec_arguments:
  "fork_xwayland_process (Socketpair_ok wl_c wl_s) (Socketpair_ok wm_c wm_s)
       (Fork_parent p) ok opt sp path
     = (Inr \<lparr>pid = p, wayland_server_fd = wl_s, x11_wm_client_fd = wm_c\<rparr>,
        Some ([Set_cloexec wl_c False, Set_cloexec wm_s False,
               Setenv ''WAYLAND_SOCKET'' (to_string wl_c),
               Sigaction_SIGUSR1 SIG_IGN]
              @ map (\<lambda>fd. Set_cloexec fd False) (socket_fds sp)
              @ [Execvp path
                   ([path, x11_display sp, ''-rootless'', ''-wm'', to_string wm_s,
                     ''-terminate'']
                    @ concat (map (\<lambda>fd. [''-listen'', to_string fd]) (socket_fds sp))
                    @ (case opt of None \<Rightarrow> [] | Some x \<Rightarrow> [x]))]
              @ (if ok then []
                 else [Perror (''Failed to execute Xwayland binary: xwayland_path='' @ [CHR 0x27]
                               @ path @ [CHR 0x27]),
                       Abort])))
   \<and> (snd (fork_xwayland_process sp1 sp2 fk ok opt sp path) \<noteq> None) =
       ((\<exists>a b. sp1 = Socketpair_ok a b) \<and> (\<exists>c d. sp2 = Socketpair_ok c d)
        \<and> (\<exists>q. fk = Fork_parent q))"
  by (cases opt; cases sp1; cases sp2; cases fk)
     (simp_all add: fork_xwayland_process_def make_socket_pair_def exec_xwayland_def
        xwayland_args_def)

theorem child_exec_arguments_witness:
  "snd (fork_xwayland_process (Socketpair_ok 3 4) (Socketpair_ok 5 6) (Fork_parent 4242)
          True (Some ''-verbose'') spawner_0 ''/usr/bin/Xwayland'')
     = Some [Set_cloexec 3 False, Set_cloexec 6 False, Setenv ''WAYLAND_SOCKET'' ''3'',
             Sigaction_SIGUSR1 SIG_IGN, Set_cloexec 7 False, Set_cloexec 8 False,
             Execvp ''/usr/bin/Xwayland''
               [''/usr/bin/Xwayland'', '':0'', ''-rootless'', ''-wm'', ''6'', ''-terminate'',
                ''-listen'', ''7'', ''-listen'', ''8'', ''-verbose'']]"
  using child_exec_arguments [of 3 4 5 6 4242 True "Some ''-verbose''" spawner_0
      "''/usr/bin/Xwayland''" "Socketpair_ok 3 4" "Socketpair_ok 5 6" "Fork_parent 4242"]
  by (simp add: spawner_0_def)

subsection \<open>The handshake and the signal handler\<close>

lemma connect_xwayland_wl_client_handler:
  "snd (connect_xwayland_wl_client prior created c sg) =
     (if (\<exists>t. created = Some t \<and> t \<le> 10000) \<and> c \<noteq> 0 then prior else Set_xserver_ready)"
  by (auto simp add: connect_xwayland_wl_client_def Let_def split: option.splits)

lemma connect_xwayland_wl_client_timeout:
  "created = Some t \<Longrightarrow> t \<le> 10000 \<Longrightarrow> c \<noteq> 0 \<Longrightarrow>
   connect_xwayland_wl_client prior created c sg =
     (if xserver_ready sg (t + 5000) then Inr c
      else Inl (Runtime_error ''XWayland server failed to start''), prior)"
  by (simp add: connect_xwayland_wl_client_def Let_def spin_wait_for_eq)

text \<open>
  Claim C6 says that the temporary handler of SIGUSR1 is put back on every way out of
  the handshake. With the handler \<open>SIG_DFL\<close> before: when \<open>wl_client_create\<close> returns null,
  and when the client is not created within 10 s, the handshake throws with the
  temporary handler still installed. (When the readiness signal does not come within
  5 s, the handler is put back before the throw.)
\<close>

theorem handshake_early_throw_leaves_handler:
  "connect_xwayland_wl_client SIG_DFL (Some 20) 0 (Some 350)
     = (Inl (Runtime_error ''Failed to create XWayland wl_client''), Set_xserver_ready)
   \<and> connect_xwayland_wl_client SIG_DFL None 1 (Some 350)
     = (Inl (Runtime_error ''Creating XWayland wl_client timed out''), Set_xserver_ready)
   \<and> connect_xwayland_wl_client SIG_DFL (Some 20) 1 None
     = (Inl (Runtime_error ''XWayland server failed to start''), SIG_DFL)"
  by (simp add: connect_xwayland_wl_client_def Let_def spin_wait_for_eq xserver_ready_def)

subsection \<open>A binary that cannot be executed\<close>

lemma exec_failure_ctor_fails:
  "\<not> execvp_ok w \<Longrightarrow> isl (fst (XWaylandServer_ctor w sp path))"
  by (auto simp add: XWaylandServer_ctor_def connect_xwayland_wl_client_def Let_def
      child_sigusr1_def spin_wait_for_eq xserver_ready_def
      split: prod.splits sum.splits option.splits)

lemma exec_failure_ctor_result:
  assumes "\<not> execvp_ok w" "socketpair_1 w = Socketpair_ok a b"
    "socketpair_2 w = Socketpair_ok c d" "fork_ret w = Fork_parent p"
    "client_created_at w = Some t" "t \<le> 10000" "created_client w \<noteq> 0"
  shows "\<exists>acts. XWaylandServer_ctor w sp path =
           (Inl (Runtime_error ''XWayland server failed to start''),
            Some (acts @ [Abort]), prior_sigusr1 w)"
  using assms
  by (simp add: XWaylandServer_ctor_def fork_xwayland_process_def make_socket_pair_def
      connect_xwayland_wl_client_timeout child_sigusr1_def xserver_ready_def)

lemma spawn_server_ctor_fails:
  assumes g: "server s = None" "spawner s = Some sp" "\<not> restart_in_progress s"
    and f: "isl (fst (XWaylandServer_ctor w sp (xwayland_path s)))"
  shows "server (snd (spawn w s)) = None \<and> wm (snd (spawn w s)) = wm s
     \<and> wm_event_thread (snd (spawn w s)) = wm_event_thread s
     \<and> restart_in_progress (snd (spawn w s))
     \<and> Create Wm_event_thread \<notin> set (new_effects s (snd (spawn w s)))
     \<and> Create Wm \<notin> set (new_effects s (snd (spawn w s)))"
proof -
  obtain r child h where x: "XWaylandServer_ctor w sp (xwayland_path s) = (r, child, h)"
    by (cases "XWaylandServer_ctor w sp (xwayland_path s)") auto
  with f obtain e where r: "r = Inl e" by (cases r) auto
  let ?fk = "case child of None \<Rightarrow> [] | Some acts \<Rightarrow> [Fork_child acts]"
  have sp: "snd (spawn w s) =
      emit [Unlock] (restart (emit [Log_error e ''Spawning XWayland failed'']
        (emit ?fk (emit [Lock] s))))"
    using g x r by (simp add: spawn_def spawn_try_def Let_def)
  have "new_effects s (snd (spawn w s)) =
      [Lock] @ ?fk @ [Log_error e ''Spawning XWayland failed'', Main_loop_spawn, Unlock]"
    by (rule new_effects_append) (simp add: sp)
  then show ?thesis using g by (simp add: sp split: option.splits)
qed

text \<open>
  Claim C8, as stated: when the binary cannot be executed, construction fails with a
  \<open>ResourceCreationFailure\<close>. With socket pairs, \<open>fork\<close> and client handle all fine and
  \<open>execvp\<close> failing in the child, the constructor of the server throws the run-time error
  of the readiness wait, which is not a \<open>ResourceCreationFailure\<close>.
\<close>

theorem bad_path_error_counterexample:
  "fst (XWaylandServer_ctor (world_ok\<lparr>execvp_ok := False\<rparr>) spawner_0 ''/no/such/Xwayland'')
     = Inl (Runtime_error ''XWayland server failed to start'')
   \<and> \<not> is_ResourceCreationFailure (Runtime_error ''XWayland server failed to start'')"
  by (simp add: XWaylandServer_ctor_def fork_xwayland_process_def make_socket_pair_def
      connect_xwayland_wl_client_timeout child_sigusr1_def xserver_ready_def world_ok_def
      is_ResourceCreationFailure_def)

text \<open>
  Claim C8, amended. A path that \<open>access\<close> reports as not executable is a fatal error of
  the connector's constructor. When \<open>execvp\<close> fails in the forked child, the child prints
  the error and aborts, and the constructor of the server always throws: if the
  socket pairs, \<open>fork\<close> and the client handle succeeded, it throws the error of the
  readiness wait (a \<open>HandshakeTimeout\<close>, not a \<open>ResourceCreationFailure\<close>) with the handler
  of SIGUSR1 put back. \<open>spawn\<close> then leaves the server absent, builds no window manager
  and no event thread, and calls \<open>restart\<close>.
\<close>

theorem exec_failure_is_readiness_timeout:
  assumes "\<not> execvp_ok w"
  shows "isl (fst (XWaylandServer_ctor w sp path))
     \<and> (socketpair_1 w = Socketpair_ok a b \<and> socketpair_2 w = Socketpair_ok c d
          \<and> fork_ret w = Fork_parent p \<and> client_created_at w = Some t \<and> t \<le> 10000
          \<and> created_client w \<noteq> 0 \<longrightarrow>
         (\<exists>acts. XWaylandServer_ctor w sp path =
            (Inl (Runtime_error ''XWayland server failed to start''),
             Some (acts @ [Abort]), prior_sigusr1 w))
         \<and> is_HandshakeTimeout (Runtime_error ''XWayland server failed to start'')
         \<and> \<not> is_ResourceCreationFailure (Runtime_error ''XWayland server failed to start''))
     \<and> (server s = None \<and> spawner s = Some sp \<and> \<not> restart_in_progress s \<and> xwayland_path s = path
          \<longrightarrow>
         server (snd (spawn w s)) = None \<and> wm (snd (spawn w s)) = wm s
         \<and> wm_event_thread (snd (spawn w s)) = wm_event_thread s
         \<and> restart_in_progress (snd (spawn w s))
         \<and> Create Wm_event_thread \<notin> set (new_effects s (snd (spawn w s)))
         \<and> Create Wm \<notin> set (new_effects s (snd (spawn w s))))
     \<and> XWaylandConnector_ctor False path
         = Inl (Fatal_error (''Cannot execute Xwayland: --xwayland-path '' @ path))"
proof (intro conjI impI)
  from assms show f: "isl (fst (XWaylandServer_ctor w sp path))"
    by (rule exec_failure_ctor_fails)
  show "XWaylandConnector_ctor False path
         = Inl (Fatal_error (''Cannot execute Xwayland: --xwayland-path '' @ path))"
    by (simp add: XWaylandConnector_ctor_def)
  show "is_HandshakeTimeout (Runtime_error ''XWayland server failed to start'')"
    by (simp add: is_HandshakeTimeout_def)
  show "\<not> is_ResourceCreationFailure (Runtime_error ''XWayland server failed to start'')"
    by (simp add: is_ResourceCreationFailure_def)
  {
    assume "socketpair_1 w = Socketpair_ok a b \<and> socketpair_2 w = Socketpair_ok c d
          \<and> fork_ret w = Fork_parent p \<and> client_created_at w = Some t \<and> t \<le> 10000
          \<and> created_client w \<noteq> 0"
    with assms show "\<exists>acts. XWaylandServer_ctor w sp path =
            (Inl (Runtime_error ''XWayland server failed to start''),
             Some (acts @ [Abort]), prior_sigusr1 w)"
      using exec_failure_ctor_result [of w a b c d p t sp path] by blast
  }
  {
    assume g: "server s = None \<and> spawner s = Some sp \<and> \<not> restart_in_progress s
        \<and> xwayland_path s = path"
    with f have "isl (fst (XWaylandServer_ctor w sp (xwayland_path s)))" by simp
    with g have r: "server (snd (spawn w s)) = None \<and> wm (snd (spawn w s)) = wm s
         \<and> wm_event_thread (snd (spawn w s)) = wm_event_thread s
         \<and> restart_in_progress (snd (spawn w s))
         \<and> Create Wm_event_thread \<notin> set (new_effects s (snd (spawn w s)))
         \<and> Create Wm \<notin> set (new_effects s (snd (spawn w s)))"
      using spawn_server_ctor_fails [of s sp w] by blast
    from r show "server (snd (spawn w s)) = None" by blast
    from r show "wm (snd (spawn w s)) = wm s" by blast
    from r show "wm_event_thread (snd (spawn w s)) = wm_event_thread s" by blast
    from r show "restart_in_progress (snd (spawn w s))" by blast
    from r show "Create Wm_event_thread \<notin> set (new_effects s (snd (spawn w s)))" by blast
    from r show "Create Wm \<notin> set (new_effects s (snd (spawn w s)))" by blast
  }
qed

theorem exec_failure_is_readiness_timeout_witness:
  "\<not> execvp_ok (world_ok\<lparr>execvp_ok := False\<rparr>)
   \<and> isl (fst (XWaylandServer_ctor (world_ok\<lparr>execvp_ok := False\<rparr>) spawner_0 ''/usr/bin/Xwayland''))
   \<and> server (snd (spawn (world_ok\<lparr>execvp_ok := False\<rparr>) connector_listening)) = None
   \<and> wm (snd (spawn (world_ok\<lparr>execvp_ok := False\<rparr>) connector_listening)) = None
   \<and> wm_event_thread (snd (spawn (world_ok\<lparr>execvp_ok := False\<rparr>) connector_listening)) = None
   \<and> restart_in_progress (snd (spawn (world_ok\<lparr>execvp_ok := False\<rparr>) connector_listening))"
  using exec_failure_is_readiness_timeout [where w = "world_ok\<lparr>execvp_ok := False\<rparr>"
      and sp = spawner_0 and path = "''/usr/bin/Xwayland''" and s = connector_listening
      and a = 3 and b = 4 and c = 5 and d = 6 and p = 4242 and t = 20]
  by simp

end
